theory Spec2Isabelle
  imports Complex_Main
begin

section \<open>Strings and numbers of the source language\<close>

text \<open>
  A JavaScript string is a sequence of UTF-16 code units; \<open>length\<close>, \<open>trim\<close>, regular
  expressions without the \<open>u\<close> flag and \<open>substring\<close> all work on code units. A string is
  modelled as the list of its code units, each a natural number. \<open>js\<close> writes an ASCII
  literal of the source as such a list.

  The counters and millisecond timestamps of the rate limiter are JavaScript numbers that
  hold integers (\<open>Date.now()\<close>, a count that starts at 1 and is incremented, a window
  length in milliseconds); they are modelled as \<open>int\<close>, exact as long as the values stay
  below \<open>2 ^ 53\<close>. The limit \<open>maxRequests\<close> is any finite number, of either sign and with
  or without a fractional part, since nothing in the source makes it an integer; it is
  modelled as \<open>real\<close>, and the count is compared with it as a number.
\<close>

type_synonym jsstring = "nat list"

definition js :: "string \<Rightarrow> jsstring" where
  "js s = map of_char s"

section \<open>Rate limiter (rate-limit.middleware.ts)\<close>

record RateLimitRecord =
  count :: int
  resetTime :: int

text \<open>The private \<open>store\<close> of class \<open>RateLimiter\<close>: a \<open>Map\<close> from key to record.\<close>

type_synonym store = "jsstring \<rightharpoonup> RateLimitRecord"

text \<open>
  \<open>isRateLimited\<close> reads the clock once (\<open>now\<close>, a parameter here), and returns the
  verdict together with the store after the call. \<open>record.count++\<close> mutates the record
  object held by the map, which is an update of the store at \<open>key\<close>.
\<close>

definition isRateLimited :: "store \<Rightarrow> int \<Rightarrow> jsstring \<Rightarrow> real \<Rightarrow> int \<Rightarrow> bool \<times> store" where
  "isRateLimited st now key maxRequests windowMs =
     (case st key of
        None \<Rightarrow> (False, st(key \<mapsto> \<lparr>count = 1, resetTime = now + windowMs\<rparr>))
      | Some record \<Rightarrow>
          if now > resetTime record
          then (False, st(key \<mapsto> \<lparr>count = 1, resetTime = now + windowMs\<rparr>))
          else if real_of_int (count record) \<ge> maxRequests then (True, st)
          else (False, st(key \<mapsto> record\<lparr>count := count record + 1\<rparr>)))"

definition getRemaining :: "store \<Rightarrow> int \<Rightarrow> jsstring \<Rightarrow> real \<Rightarrow> real" where
  "getRemaining st now key maxRequests =
     (case st key of
        None \<Rightarrow> maxRequests
      | Some record \<Rightarrow>
          if now > resetTime record then maxRequests
          else max 0 (maxRequests - real_of_int (count record)))"

definition getResetTime :: "store \<Rightarrow> int \<Rightarrow> jsstring \<Rightarrow> int option" where
  "getResetTime st now key =
     (case st key of
        None \<Rightarrow> None
      | Some record \<Rightarrow> if now > resetTime record then None else Some (resetTime record))"

definition cleanup :: "store \<Rightarrow> int \<Rightarrow> store" where
  "cleanup st now =
     (\<lambda>key. case st key of
        None \<Rightarrow> None
      | Some record \<Rightarrow> if now > resetTime record then None else Some record)"

definition clear :: "store \<Rightarrow> store" where
  "clear st = Map.empty"

text \<open>
  A run of checks on one key, with one limit and one window length, at the given clock
  readings; it returns the verdicts in order and the final store.
\<close>

fun checks :: "store \<Rightarrow> jsstring \<Rightarrow> real \<Rightarrow> int \<Rightarrow> int list \<Rightarrow> bool list \<times> store" where
  "checks st key maxRequests windowMs [] = ([], st)"
| "checks st key maxRequests windowMs (now # nows) =
     (case isRateLimited st now key maxRequests windowMs of
        (limited, st') \<Rightarrow>
          (case checks st' key maxRequests windowMs nows of
             (ls, st'') \<Rightarrow> (limited # ls, st'')))"

text \<open>
  The calls that change the store of the exported \<open>rateLimiter\<close> instance: a check, the
  periodic \<open>cleanup\<close> (run by the timer with its own clock reading) and \<open>clear\<close>
  (\<open>destroy\<close> clears the store as well).
\<close>

datatype call =
    Check jsstring int real int
  | Cleanup int
  | Clear

fun exec_call :: "store \<Rightarrow> call \<Rightarrow> store" where
  "exec_call st (Check key now maxRequests windowMs) =
     snd (isRateLimited st now key maxRequests windowMs)"
| "exec_call st (Cleanup now) = cleanup st now"
| "exec_call st Clear = clear st"

definition exec_calls :: "store \<Rightarrow> call list \<Rightarrow> store" where
  "exec_calls st cs = foldl exec_call st cs"

text \<open>A call respects the limit \<open>L\<close> for \<open>key\<close> when it does not check \<open>key\<close> with another limit.\<close>

fun checks_with :: "jsstring \<Rightarrow> real \<Rightarrow> call \<Rightarrow> bool" where
  "checks_with key L (Check key' now maxRequests windowMs) = (key' \<noteq> key \<or> maxRequests = L)"
| "checks_with key L (Cleanup now) = True"
| "checks_with key L Clear = True"

text \<open>The bounds on the counter of the record stored for \<open>key\<close>, when there is one.\<close>

definition count_bounds :: "store \<Rightarrow> jsstring \<Rightarrow> int \<Rightarrow> bool" where
  "count_bounds st key L =
     (case st key of None \<Rightarrow> True | Some record \<Rightarrow> 1 \<le> count record \<and> count record \<le> L)"

section \<open>Character classes and phone numbers (sanitization.util.ts)\<close>

text \<open>
  The classes of the regular expressions of the source, on code units: \<open>\d\<close> is
  \<open>[0-9]\<close>, \<open>\w\<close> is \<open>[A-Za-z0-9_]\<close>, and \<open>\s\<close> is the white space and line terminators
  of the language, which is also what \<open>trim\<close> strips.
\<close>

definition is_digit :: "nat \<Rightarrow> bool" where
  "is_digit c = (48 \<le> c \<and> c \<le> 57)"



text \<open>\<open>s.replace(/C/g, '')\<close> for a class \<open>C\<close> of single code units deletes every member of \<open>C\<close>.\<close>

definition remove_class :: "(nat \<Rightarrow> bool) \<Rightarrow> jsstring \<Rightarrow> jsstring" where
  "remove_class C s = filter (\<lambda>c. \<not> C c) s"

definition sanitizePhoneNumber :: "jsstring \<Rightarrow> jsstring" where
  "sanitizePhoneNumber phone =
     (let cleaned = remove_class (\<lambda>c. \<not> is_digit c) phone in
      if length cleaned = 10 then cleaned
      else if length cleaned = 12 \<and> take 2 cleaned = js ''91'' then drop 2 cleaned
      else cleaned)"

section \<open>Deserialised values\<close>

text \<open>
  The untyped data that reaches the middleware (a request body, the \<open>details\<close> of an
  error): strings, numbers, booleans, \<open>null\<close>, arrays and objects. An object is its
  prototype and the list of its own enumerable properties, in the order in which
  \<open>Object.entries\<close> yields them, each key once. The prototype is \<open>None\<close> for
  \<open>Object.prototype\<close>, which every object literal and every object made by \<open>JSON.parse\<close>
  has, and \<open>Some v\<close> when it has been replaced by \<open>v\<close>, which is an object, an array or
  \<open>null\<close>. No function here looks into a number, so the type of numbers is a parameter.
\<close>

datatype 'n jsval =
    JStr jsstring
  | JNum 'n
  | JBool bool
  | JNull
  | JArr "'n jsval list"
  | JObj (prototype: "'n jsval option") (properties: "(jsstring \<times> 'n jsval) list")

section \<open>Constants (shared/constants/index.ts)\<close>

datatype UserRole = PATIENT | DOCTOR | ADMIN

definition BAD_REQUEST :: nat where "BAD_REQUEST = 400"
definition UNAUTHORIZED :: nat where "UNAUTHORIZED = 401"
definition FORBIDDEN :: nat where "FORBIDDEN = 403"
definition NOT_FOUND :: nat where "NOT_FOUND = 404"
definition CONFLICT :: nat where "CONFLICT = 409"
definition TOO_MANY_REQUESTS :: nat where "TOO_MANY_REQUESTS = 429"
definition INTERNAL_SERVER_ERROR :: nat where "INTERNAL_SERVER_ERROR = 500"

lemmas HTTP_STATUS =
  BAD_REQUEST_def UNAUTHORIZED_def FORBIDDEN_def NOT_FOUND_def CONFLICT_def
  TOO_MANY_REQUESTS_def INTERNAL_SERVER_ERROR_def

datatype ErrorCode =
    AUTH_INVALID_CREDENTIALS
  | AUTH_TOKEN_EXPIRED
  | AUTH_TOKEN_INVALID
  | AUTH_UNAUTHORIZED
  | AUTH_FORBIDDEN
  | OTP_EXPIRED
  | OTP_INVALID
  | OTP_MAX_ATTEMPTS
  | OTP_SEND_FAILED
  | VALIDATION_ERROR
  | INVALID_INPUT
  | RESOURCE_NOT_FOUND
  | RESOURCE_ALREADY_EXISTS
  | ONBOARDING_INCOMPLETE
  | ONBOARDING_STEP_INVALID
  | DOCTOR_NOT_VERIFIED
  | SLOT_NOT_AVAILABLE
  | BOOKING_CONFLICT
  | BOOKING_CANCELLATION_FAILED
  | INTERNAL_ERROR
  | DATABASE_ERROR
  | RATE_LIMIT_EXCEEDED

section \<open>Error classes (utils/errors.ts)\<close>

text \<open>
  An instance of \<open>AppError\<close> or of one of its subclasses: the message it inherits from
  \<open>Error\<close> and its four read-only fields. \<open>details\<close> is \<open>None\<close> when it is \<open>undefined\<close>.
  No class sets \<open>name\<close>, so the name of every instance is the inherited \<open>"Error"\<close>.
\<close>

record 'n AppError =
  message :: jsstring
  statusCode :: nat
  code :: ErrorCode
  isOperational :: bool
  details :: "'n jsval option"

text \<open>An optional argument with a default value: \<open>None\<close> is the omitted argument.\<close>

definition or_default :: "'a option \<Rightarrow> 'a \<Rightarrow> 'a" where
  "or_default arg d = (case arg of None \<Rightarrow> d | Some v \<Rightarrow> v)"

definition new_AppError ::
  "jsstring \<Rightarrow> nat option \<Rightarrow> ErrorCode option \<Rightarrow> bool option \<Rightarrow> 'n jsval option \<Rightarrow> 'n AppError" where
  "new_AppError msg status ecode operational dets =
     \<lparr>message = msg,
      statusCode = or_default status INTERNAL_SERVER_ERROR,
      code = or_default ecode INTERNAL_ERROR,
      isOperational = or_default operational True,
      details = dets\<rparr>"

definition ValidationError :: "jsstring option \<Rightarrow> 'n jsval option \<Rightarrow> 'n AppError" where
  "ValidationError msg dets =
     new_AppError (or_default msg (js ''Validation failed''))
       (Some BAD_REQUEST) (Some VALIDATION_ERROR) (Some True) dets"

definition AuthenticationError :: "jsstring option \<Rightarrow> ErrorCode option \<Rightarrow> 'n AppError" where
  "AuthenticationError msg ecode =
     new_AppError (or_default msg (js ''Authentication failed''))
       (Some UNAUTHORIZED) (Some (or_default ecode AUTH_UNAUTHORIZED)) (Some True) None"

definition AuthorizationError :: "jsstring option \<Rightarrow> 'n AppError" where
  "AuthorizationError msg =
     new_AppError (or_default msg (js ''Access forbidden''))
       (Some FORBIDDEN) (Some AUTH_FORBIDDEN) (Some True) None"

definition NotFoundError :: "jsstring option \<Rightarrow> 'n AppError" where
  "NotFoundError msg =
     new_AppError (or_default msg (js ''Resource not found''))
       (Some NOT_FOUND) (Some RESOURCE_NOT_FOUND) (Some True) None"

definition ConflictError :: "jsstring option \<Rightarrow> 'n AppError" where
  "ConflictError msg =
     new_AppError (or_default msg (js ''Resource already exists''))
       (Some CONFLICT) (Some RESOURCE_ALREADY_EXISTS) (Some True) None"

definition RateLimitError :: "jsstring option \<Rightarrow> 'n AppError" where
  "RateLimitError msg =
     new_AppError (or_default msg (js ''Too many requests''))
       (Some TOO_MANY_REQUESTS) (Some RATE_LIMIT_EXCEEDED) (Some True) None"

definition DatabaseError :: "jsstring option \<Rightarrow> 'n jsval option \<Rightarrow> 'n AppError" where
  "DatabaseError msg dets =
     new_AppError (or_default msg (js ''Database operation failed''))
       (Some INTERNAL_SERVER_ERROR) (Some DATABASE_ERROR) (Some True) dets"

definition OTPError :: "jsstring \<Rightarrow> ErrorCode \<Rightarrow> 'n AppError" where
  "OTPError msg ecode = new_AppError msg (Some BAD_REQUEST) (Some ecode) (Some True) None"

lemmas error_classes =
  ValidationError_def AuthenticationError_def AuthorizationError_def NotFoundError_def
  ConflictError_def RateLimitError_def DatabaseError_def OTPError_def new_AppError_def
  or_default_def

section \<open>Failure values\<close>

text \<open>
  What a middleware passes to \<open>next(error)\<close>, and so what the error handler receives:
  a \<open>ZodError\<close> with its issues, an \<open>AppError\<close>, or any other \<open>Error\<close>, of which the
  handler reads the name, the message, the \<open>code\<close> property (here its value when it is
  an integral number) and the stack.
\<close>

datatype PathSegment = Key jsstring | Index nat

record ZodIssue =
  issue_path :: "PathSegment list"
  issue_message :: jsstring

record JsError =
  err_name :: jsstring
  err_message :: jsstring
  err_code :: "int option"
  err_stack :: "jsstring option"

datatype 'n failure =
    ZodError "ZodIssue list" jsstring
  | AppErr "'n AppError"
  | OtherError JsError

fun error_name :: "'n failure \<Rightarrow> jsstring" where
  "error_name (ZodError issues msg) = js ''ZodError''"
| "error_name (AppErr e) = js ''Error''"
| "error_name (OtherError e) = err_name e"

fun error_message :: "'n failure \<Rightarrow> jsstring" where
  "error_message (ZodError issues msg) = msg"
| "error_message (AppErr e) = message e"
| "error_message (OtherError e) = err_message e"

fun error_code_property :: "'n failure \<Rightarrow> int option" where
  "error_code_property (OtherError e) = err_code e"
| "error_code_property (ZodError issues msg) = None"
| "error_code_property (AppErr e) = None"

fun isOperationalError :: "'n failure \<Rightarrow> bool" where
  "isOperationalError (AppErr e) = isOperational e"
| "isOperationalError (ZodError issues msg) = False"
| "isOperationalError (OtherError e) = False"

section \<open>Error responses (response.util.ts, error-handler.middleware.ts)\<close>

text \<open>
  The body of an error response (\<open>IApiResponse\<close>) and the response itself: the status
  given to \<open>res.status\<close> and the body given to \<open>json\<close>. The fields \<open>message\<close>, \<open>error.code\<close>
  and \<open>error.details\<close> of the body are named \<open>resp_message\<close>, \<open>error_code\<close> and
  \<open>error_details\<close> here, apart from the fields of \<open>AppError\<close>. An optional field that is
  not set is \<open>None\<close>.
\<close>

record 'n ApiError =
  error_code :: ErrorCode
  error_details :: "'n jsval option"

record ApiMeta =
  timestamp :: jsstring
  requestId :: "jsstring option"

record 'n IApiResponse =
  success :: bool
  resp_message :: jsstring
  resp_data :: "'n jsval option"
  resp_error :: "'n ApiError option"
  meta :: ApiMeta

record 'n HttpResponse =
  status :: nat
  json :: "'n IApiResponse"

text \<open>
  \<open>details && typeof details === 'object'\<close>: true of arrays and objects only (\<open>null\<close> is
  falsy, and a string, number or boolean is not of type object).
\<close>

fun is_object_value :: "'n jsval \<Rightarrow> bool" where
  "is_object_value (JArr xs) = True"
| "is_object_value (JObj proto kvs) = True"
| "is_object_value v = False"

text \<open>
  \<open>errorResponse\<close>, with the clock reading for \<open>meta.timestamp\<close> as a parameter. The empty
  string is falsy, so an empty \<open>requestId\<close> is left out like a missing one.
\<close>

definition errorResponse :: "'n failure \<Rightarrow> jsstring option \<Rightarrow> jsstring \<Rightarrow> 'n HttpResponse" where
  "errorResponse error rid now =
     (let (statusCode', errorCode, message', details') =
            (case error of
               AppErr e \<Rightarrow> (statusCode e, code e, message e, details e)
             | _ \<Rightarrow> (INTERNAL_SERVER_ERROR, INTERNAL_ERROR,
                      js ''An unexpected error occurred'', None))
      in \<lparr>status = statusCode',
          json = \<lparr>success = False,
                   resp_message = message',
                   resp_data = None,
                   resp_error = Some \<lparr>error_code = errorCode,
                                       error_details =
                                         (case details' of
                                            None \<Rightarrow> None
                                          | Some d \<Rightarrow> if is_object_value d then Some d else None)\<rparr>,
                   meta = \<lparr>timestamp = now,
                            requestId =
                              (case rid of
                                 None \<Rightarrow> None
                               | Some r \<Rightarrow> if r \<noteq> [] then Some r else None)\<rparr>\<rparr>\<rparr>)"

datatype NodeEnv = development | production | test

text \<open>\<open>n.toString()\<close> for an array index: its decimal digits.\<close>

fun decimal :: "nat \<Rightarrow> jsstring" where
  "decimal n = (if n < 10 then [48 + n] else decimal (n div 10) @ [48 + n mod 10])"

declare decimal.simps [simp del]

text \<open>\<open>path.join('.')\<close> on the path of a Zod issue, whose segments are keys and indices.\<close>

fun segment :: "PathSegment \<Rightarrow> jsstring" where
  "segment (Key k) = k"
| "segment (Index i) = decimal i"

fun join_dot :: "jsstring list \<Rightarrow> jsstring" where
  "join_dot [] = []"
| "join_dot [x] = x"
| "join_dot (x # y # ys) = x @ js ''.'' @ join_dot (y # ys)"

definition formattedErrors :: "ZodIssue list \<Rightarrow> 'n jsval" where
  "formattedErrors issues =
     JArr (map (\<lambda>e. JObj None [(js ''field'', JStr (join_dot (map segment (issue_path e)))),
                                (js ''message'', JStr (issue_message e))]) issues)"

text \<open>
  \<open>errorHandler\<close>: the response it sends for a failure, in the environment \<open>env\<close>, for a
  request with correlation id \<open>rid\<close>. Its two \<open>console.error\<close> calls write to the server
  log only and are left out.
\<close>

definition errorHandler ::
  "NodeEnv \<Rightarrow> 'n failure \<Rightarrow> jsstring option \<Rightarrow> jsstring \<Rightarrow> 'n HttpResponse" where
  "errorHandler env err rid now =
     (case err of
        ZodError issues msg \<Rightarrow>
          errorResponse
            (AppErr (ValidationError (Some (js ''Validation failed'')) (Some (formattedErrors issues))))
            rid now
      | _ \<Rightarrow>
          if error_name err = js ''ValidationError''
          then errorResponse (AppErr (ValidationError (Some (error_message err)) None)) rid now
          else if error_name err = js ''CastError''
          then errorResponse (AppErr (ValidationError (Some (js ''Invalid ID format'')) None)) rid now
          else if error_name err = js ''MongoServerError'' \<and> error_code_property err = Some 11000
          then errorResponse
                 (AppErr (ValidationError (Some (js ''Resource already exists'')) None)) rid now
          else (case err of
                  AppErr e \<Rightarrow> errorResponse err rid now
                | _ \<Rightarrow>
                    if \<not> isOperationalError err \<and> env = production
                    then errorResponse
                           (AppErr (new_AppError (js ''An unexpected error occurred'')
                                      None None None None)) rid now
                    else errorResponse err rid now))"

text \<open>\<open>notFoundHandler\<close>: the error it passes on for a request with no route.\<close>

definition notFoundHandler :: "jsstring \<Rightarrow> jsstring \<Rightarrow> 'n AppError" where
  "notFoundHandler method path =
     new_AppError (js ''Route not found: '' @ method @ js '' '' @ path) (Some 404) None None None"

section \<open>Admin authorisation\<close>

text \<open>
  Modelled from the spec: the type \<open>IAdminPermissions\<close> of \<open>admin.schema\<close>, which is not
  among the sources. The spec has the permission set as a fixed mapping from permission
  name to boolean, in which a name can be missing; the mapping here holds the own
  properties of the permission object.
\<close>

type_synonym IAdminPermissions = "jsstring \<rightharpoonup> bool"

text \<open>
  The permission object is taken to be a plain object, one whose prototype is
  \<open>Object.prototype\<close>. The read \<open>permissions[permission]\<close> of a name that is not an own
  property goes on to the prototype. These are the properties of \<open>Object.prototype\<close>;
  their values are functions, and for \<open>__proto__\<close> the prototype itself, all of them
  truthy.
\<close>

definition Object_prototype :: "jsstring list" where
  "Object_prototype =
     [js ''constructor'', js ''__defineGetter__'', js ''__defineSetter__'',
      js ''hasOwnProperty'', js ''__lookupGetter__'', js ''__lookupSetter__'',
      js ''isPrototypeOf'', js ''propertyIsEnumerable'', js ''toString'', js ''valueOf'',
      js ''__proto__'', js ''toLocaleString'']"

text \<open>
  Whether \<open>permissions[permission]\<close> is truthy: an own property gives its boolean, an
  inherited one is truthy, and a name found nowhere gives \<open>undefined\<close>, which is falsy.
\<close>

definition truthy_permission :: "IAdminPermissions \<Rightarrow> jsstring \<Rightarrow> bool" where
  "truthy_permission perms permission =
     (case perms permission of
        Some b \<Rightarrow> b
      | None \<Rightarrow> permission \<in> set Object_prototype)"



record RequestAdmin =
  admin_id :: jsstring
  email :: jsstring
  adminRole :: jsstring
  permissions :: IAdminPermissions


definition requirePermission :: "jsstring \<Rightarrow> RequestAdmin option \<Rightarrow> 'n failure + unit" where
  "requirePermission permission admin =
     (case admin of
        None \<Rightarrow> Inl (AppErr (AuthenticationError (Some (js ''Admin authentication required'')) None))
      | Some a \<Rightarrow>
          if adminRole a = js ''super_admin'' then Inr ()
          else if \<not> truthy_permission (permissions a) permission
          then Inl (AppErr (AuthorizationError
                 (Some (js ''Permission denied. Required permission: '' @ permission))))
          else Inr ())"

definition requireSuperAdmin :: "RequestAdmin option \<Rightarrow> 'n failure + unit" where
  "requireSuperAdmin admin =
     (case admin of
        None \<Rightarrow> Inl (AppErr (AuthenticationError (Some (js ''Admin authentication required'')) None))
      | Some a \<Rightarrow>
          if adminRole a \<noteq> js ''super_admin''
          then Inl (AppErr (AuthorizationError (Some (js ''Super admin access required''))))
          else Inr ())"

section \<open>String sanitisation (sanitization.util.ts)\<close>








section \<open>Object sanitisation (sanitization.util.ts)\<close>











section \<open>Values that a second pass leaves alone\<close>




section \<open>Rate limiter: properties\<close>

lemma isRateLimited_fresh:
  "st key = None \<or> (\<exists>r. st key = Some r \<and> now > resetTime r) \<Longrightarrow>
   isRateLimited st now key L W = (False, st(key \<mapsto> \<lparr>count = 1, resetTime = now + W\<rparr>))"
  by (auto simp: isRateLimited_def)

lemma isRateLimited_other_key:
  "key' \<noteq> key \<Longrightarrow> snd (isRateLimited st now key' L W) key = st key"
  by (simp add: isRateLimited_def split: option.splits)

lemma map_upt_Suc_shift: "map f [0..<Suc n] = f 0 # map (\<lambda>i. f (Suc i)) [0..<n]"
proof -
  have "[0..<Suc n] = 0 # map Suc [0..<n]"
    by (simp only: map_Suc_upt upt_conv_Cons zero_less_Suc)
  then show ?thesis by (simp only: list.map map_map comp_def)
qed

lemma checks_Cons:
  "isRateLimited st t key L W = (b, st') \<Longrightarrow>
   fst (checks st key L W (t # ts)) = b # fst (checks st' key L W ts)"
  by (simp split: prod.splits)

lemma checks_in_window:
  "st key = Some r \<Longrightarrow> \<forall>t\<in>set ts. t \<le> resetTime r \<Longrightarrow>
   fst (checks st key (real_of_int L) W ts) = map (\<lambda>i. L \<le> count r + int i) [0..<length ts]"
proof (induction ts arbitrary: st r)
  case Nil
  then show ?case by simp
next
  case (Cons t ts)
  have t: "\<not> t > resetTime r" using Cons.prems by simp
  have ts: "\<forall>t\<in>set ts. t \<le> resetTime r" using Cons.prems by simp
  have shape: "map (\<lambda>i. L \<le> count r + int i) [0..<length (t # ts)] =
      (L \<le> count r) # map (\<lambda>i. L \<le> count r + int (Suc i)) [0..<length ts]"
    using map_upt_Suc_shift[of "\<lambda>i. L \<le> count r + int i" "length ts"] by simp
  show ?case
  proof (cases "L \<le> count r")
    case True
    have step: "isRateLimited st t key (real_of_int L) W = (True, st)"
      using Cons.prems(1) t True by (simp add: isRateLimited_def)
    have "fst (checks st key (real_of_int L) W ts) = map (\<lambda>i. L \<le> count r + int i) [0..<length ts]"
      by (rule Cons.IH[of st r, OF Cons.prems(1) ts])
    also have "\<dots> = map (\<lambda>i. L \<le> count r + int (Suc i)) [0..<length ts]"
      using True by (intro map_cong) auto
    finally have tail: "fst (checks st key (real_of_int L) W ts) =
        map (\<lambda>i. L \<le> count r + int (Suc i)) [0..<length ts]" .
    have hd: "(L \<le> count r) = True" using True by simp
    show ?thesis by (simp only: shape hd checks_Cons[OF step] tail)
  next
    case False
    let ?r = "r\<lparr>count := count r + 1\<rparr>"
    let ?st = "st(key \<mapsto> ?r)"
    have step: "isRateLimited st t key (real_of_int L) W = (False, ?st)"
      using Cons.prems(1) t False by (simp add: isRateLimited_def)
    have a: "?st key = Some ?r" by simp
    have b: "\<forall>t\<in>set ts. t \<le> resetTime ?r" using ts by simp
    have "fst (checks ?st key (real_of_int L) W ts) = map (\<lambda>i. L \<le> count ?r + int i) [0..<length ts]"
      by (rule Cons.IH[of ?st ?r, OF a b])
    also have "\<dots> = map (\<lambda>i. L \<le> count r + int (Suc i)) [0..<length ts]"
      by (simp add: add.assoc)
    finally have tail: "fst (checks ?st key (real_of_int L) W ts) =
        map (\<lambda>i. L \<le> count r + int (Suc i)) [0..<length ts]" .
    have hd: "(L \<le> count r) = False" using False by simp
    show ?thesis by (simp only: shape hd checks_Cons[OF step] tail)
  qed
qed

lemma exec_call_count_bounds:
  assumes L: "1 \<le> L"
    and c: "checks_with key (real_of_int L) c"
    and inv: "count_bounds st key L"
  shows "count_bounds (exec_call st c) key L"
proof (cases c)
  case (Check key' now m w)
  show ?thesis
  proof (cases "key' = key")
    case True
    then have "m = real_of_int L" using c Check by simp
    then show ?thesis
      using Check True L inv
      by (auto simp: count_bounds_def isRateLimited_def split: option.splits if_splits)
  next
    case False
    then show ?thesis
      using Check inv by (simp add: count_bounds_def isRateLimited_other_key)
  qed
next
  case (Cleanup now)
  then show ?thesis
    using inv by (auto simp: count_bounds_def cleanup_def split: option.splits if_splits)
next
  case Clear
  then show ?thesis by (simp add: count_bounds_def clear_def)
qed

lemma exec_calls_count_bounds:
  "1 \<le> L \<Longrightarrow> \<forall>c\<in>set cs. checks_with key (real_of_int L) c \<Longrightarrow>
   count_bounds st key L \<Longrightarrow>
   count_bounds (exec_calls st cs) key L"
  unfolding exec_calls_def
proof (induction cs arbitrary: st)
  case Nil
  then show ?case by simp
next
  case (Cons c cs)
  have c: "checks_with key (real_of_int L) c"
    and cs: "\<forall>c\<in>set cs. checks_with key (real_of_int L) c"
    using Cons.prems(2) by simp_all
  have "count_bounds (exec_call st c) key L"
    by (rule exec_call_count_bounds[OF Cons.prems(1) c Cons.prems(3)])
  then have "count_bounds (foldl exec_call (exec_call st c) cs) key L"
    by (rule Cons.IH[OF Cons.prems(1) cs])
  then show ?case by (simp only: foldl_Cons)
qed


lemma checks_Cons_snd:
  "isRateLimited st t key L W = (b, st') \<Longrightarrow>
   snd (checks st key L W (t # ts)) = snd (checks st' key L W ts)"
  by (simp split: prod.splits)

lemma checks_keeps_window:
  "st key = Some r \<Longrightarrow> \<forall>t\<in>set ts. t \<le> resetTime r \<Longrightarrow>
   \<exists>r'. snd (checks st key L W ts) key = Some r' \<and> resetTime r' = resetTime r"
proof (induction ts arbitrary: st r)
  case Nil
  then show ?case by simp
next
  case (Cons t ts)
  have t: "\<not> t > resetTime r" using Cons.prems by simp
  have ts: "\<forall>t\<in>set ts. t \<le> resetTime r" using Cons.prems by simp
  obtain b st' where step: "isRateLimited st t key L W = (b, st')"
    by (cases "isRateLimited st t key L W")
  have "\<exists>r'. st' key = Some r' \<and> resetTime r' = resetTime r"
    using step Cons.prems(1) t by (auto simp: isRateLimited_def split: if_splits)
  then obtain r' where r': "st' key = Some r'" "resetTime r' = resetTime r" by blast
  have ts': "\<forall>t\<in>set ts. t \<le> resetTime r'" using ts r'(2) by simp
  have "\<exists>r''. snd (checks st' key L W ts) key = Some r'' \<and> resetTime r'' = resetTime r'"
    by (rule Cons.IH[of st' r', OF r'(1) ts'])
  then show ?case by (simp only: checks_Cons_snd[OF step] r'(2))
qed

text \<open>
  Claim C1, as the code has it. The first check of a key that has no record, or whose
  record has expired, opens a window that ends at \<open>t0 + W\<close>. With a limit \<open>L\<close> of at
  least 1, of the checks made in that window (the opening one included) the first \<open>L\<close>
  are admitted and every later one is rejected: the verdict of check number \<open>i\<close>, counted
  from 0, is \<open>L \<le> i\<close>. A check made after the end of the window is admitted and replaces
  the record with \<open>\<lparr>count = 1, resetTime = now + W\<rparr>\<close>.
  The bound \<open>1 \<le> L\<close> is needed: the opening check is admitted whatever the limit is.
\<close>

theorem fixed_window_limit:
  assumes L: "1 \<le> L"
    and fresh: "st key = None \<or> (\<exists>r. st key = Some r \<and> t0 > resetTime r)"
    and window: "\<forall>t\<in>set ts. t \<le> t0 + W"
  shows "fst (checks st key (real_of_int L) W (t0 # ts)) = map (\<lambda>i. L \<le> int i) [0..<Suc (length ts)] \<and>
         (\<forall>now. now > t0 + W \<longrightarrow>
            isRateLimited (snd (checks st key (real_of_int L) W (t0 # ts))) now key (real_of_int L) W =
              (False, (snd (checks st key (real_of_int L) W (t0 # ts)))
                        (key \<mapsto> \<lparr>count = 1, resetTime = now + W\<rparr>)))"
proof -
  let ?r = "\<lparr>count = 1, resetTime = t0 + W\<rparr>"
  let ?st = "st(key \<mapsto> ?r)"
  have step: "isRateLimited st t0 key (real_of_int L) W = (False, ?st)"
    by (rule isRateLimited_fresh[of st key t0, OF fresh])
  have a: "?st key = Some ?r" by simp
  have b: "\<forall>t\<in>set ts. t \<le> resetTime ?r" using window by simp
  have "fst (checks ?st key (real_of_int L) W ts) = map (\<lambda>i. L \<le> count ?r + int i) [0..<length ts]"
    by (rule checks_in_window[of ?st key ?r, OF a b])
  also have "\<dots> = map (\<lambda>i. L \<le> int (Suc i)) [0..<length ts]"
    by (simp add: add.commute)
  finally have tail: "fst (checks ?st key (real_of_int L) W ts) = map (\<lambda>i. L \<le> int (Suc i)) [0..<length ts]" .
  have hd: "(L \<le> int 0) = False" using L by simp
  have verdicts: "fst (checks st key (real_of_int L) W (t0 # ts)) = map (\<lambda>i. L \<le> int i) [0..<Suc (length ts)]"
    by (simp only: map_upt_Suc_shift hd checks_Cons[OF step] tail)
  have final: "snd (checks st key (real_of_int L) W (t0 # ts)) = snd (checks ?st key (real_of_int L) W ts)"
    by (rule checks_Cons_snd[OF step])
  obtain r' where r': "snd (checks ?st key (real_of_int L) W ts) key = Some r'" "resetTime r' = resetTime ?r"
    using checks_keeps_window[of ?st key ?r, OF a b] by blast
  have reset: "isRateLimited (snd (checks st key (real_of_int L) W (t0 # ts))) now key (real_of_int L) W =
      (False, (snd (checks st key (real_of_int L) W (t0 # ts)))(key \<mapsto> \<lparr>count = 1, resetTime = now + W\<rparr>))"
    if "now > t0 + W" for now
  proof -
    have "snd (checks st key (real_of_int L) W (t0 # ts)) key = None \<or>
      (\<exists>r. snd (checks st key (real_of_int L) W (t0 # ts)) key = Some r \<and> now > resetTime r)"
      using r' that by (simp only: final) simp
    then show ?thesis
      by (rule isRateLimited_fresh[of "snd (checks st key (real_of_int L) W (t0 # ts))" key now])
  qed
  show ?thesis using verdicts reset by blast
qed

theorem fixed_window_limit_witness:
  "fst (checks Map.empty (js ''ip'') 2 10 [0, 1, 10]) = [False, False, True] \<and>
   fst (isRateLimited (snd (checks Map.empty (js ''ip'') 2 10 [0, 1, 10])) 11 (js ''ip'') 2 10) = False"
proof -
  have L: "(1::int) \<le> 2" by simp
  have fresh: "(Map.empty :: store) (js ''ip'') = None \<or>
      (\<exists>r. (Map.empty :: store) (js ''ip'') = Some r \<and> 0 > resetTime r)" by simp
  have window: "\<forall>t\<in>set [1, 10 :: int]. t \<le> 0 + 10" by simp
  have upt: "[0..<Suc (length [1, 10 :: int])] = [0, 1, 2]" by (simp add: upt_rec)
  show ?thesis
    using fixed_window_limit[of 2 Map.empty "js ''ip''" 0 "[1, 10]" 10, OF L fresh window]
    by (simp add: upt)
qed

text \<open>
  With the limit 0 the claim as stated would have the first check, which is check number
  \<open>L + 1\<close>, rejected; \<open>isRateLimited\<close> admits it, because a key without a record is
  admitted before the limit is looked at.
\<close>

theorem limit_zero_admits_first: "fst (checks Map.empty (js ''ip'') 0 1000 [0]) = [False]"
  by (simp add: isRateLimited_def)

text \<open>
  Claim C4. When the record of the key is unexpired and its count has reached the limit,
  the check is rejected and the store after the call is the store before it; in
  particular the record of the key, with its count and reset time, is the same.
\<close>

theorem rejection_leaves_store:
  "st key = Some r \<Longrightarrow> \<not> now > resetTime r \<Longrightarrow> real_of_int (count r) \<ge> L \<Longrightarrow>
   isRateLimited st now key L W = (True, st) \<and>
   snd (isRateLimited st now key L W) key = Some r"
  by (simp add: isRateLimited_def)

theorem rejection_leaves_store_witness:
  "isRateLimited [js ''ip'' \<mapsto> \<lparr>count = 5, resetTime = 100\<rparr>] 50 (js ''ip'') 5 900000 =
     (True, [js ''ip'' \<mapsto> \<lparr>count = 5, resetTime = 100\<rparr>])"
proof -
  let ?r = "\<lparr>count = 5, resetTime = 100\<rparr>"
  have a: "[js ''ip'' \<mapsto> ?r] (js ''ip'') = Some ?r" by simp
  have b: "\<not> 50 > resetTime ?r" by simp
  have c: "real_of_int (count ?r) \<ge> 5" by simp
  show ?thesis
    using rejection_leaves_store[of "[js ''ip'' \<mapsto> ?r]" "js ''ip''" ?r 50 5 900000, OF a b c]
    by simp
qed

text \<open>
  Claim C9, as the code has it. Start from the empty store of a new \<open>RateLimiter\<close> and run
  any sequence of calls in which \<open>key\<close> is only ever checked with the limit \<open>L\<close>, an integer
  that is at least 1 (other keys may be checked with any limit, and \<open>cleanup\<close> and \<open>clear\<close>
  may run in between). Then the record stored for \<open>key\<close>, when there is one, has
  \<open>1 \<le> count \<le> L\<close>; so \<open>getRemaining\<close> never needs its clamp at 0 and returns \<open>L - count\<close>
  while the record is unexpired.
\<close>

theorem count_invariant:
  assumes L: "1 \<le> L"
    and calls: "\<forall>c\<in>set cs. checks_with key (real_of_int L) c"
    and r: "exec_calls Map.empty cs key = Some r"
  shows "1 \<le> count r \<and> count r \<le> L \<and>
         getRemaining (exec_calls Map.empty cs) now key (real_of_int L) =
           (if now > resetTime r then real_of_int L else real_of_int (L - count r))"
proof -
  have "count_bounds Map.empty key L" by (simp add: count_bounds_def)
  then have "count_bounds (exec_calls Map.empty cs) key L"
    by (rule exec_calls_count_bounds[OF L calls])
  then have bounds: "1 \<le> count r \<and> count r \<le> L"
    using r by (simp add: count_bounds_def)
  then show ?thesis using r by (simp add: getRemaining_def)
qed

theorem count_invariant_witness:
  "exec_calls Map.empty
     [Check (js ''a'') 0 2 10, Check (js ''a'') 1 2 10, Check (js ''b'') 1 7 10,
      Check (js ''a'') 2 2 10, Cleanup 5] (js ''a'') = Some \<lparr>count = 2, resetTime = 10\<rparr> \<and>
   getRemaining (exec_calls Map.empty
     [Check (js ''a'') 0 2 10, Check (js ''a'') 1 2 10, Check (js ''b'') 1 7 10,
      Check (js ''a'') 2 2 10, Cleanup 5]) 6 (js ''a'') 2 = 0"
proof -
  let ?cs = "[Check (js ''a'') 0 2 10, Check (js ''a'') 1 2 10, Check (js ''b'') 1 7 10,
      Check (js ''a'') 2 2 10, Cleanup 5]"
  let ?r = "\<lparr>count = 2, resetTime = 10\<rparr>"
  have L: "(1::int) \<le> 2" by simp
  have calls: "\<forall>c\<in>set ?cs. checks_with (js ''a'') (real_of_int 2) c" by (simp add: js_def)
  have r: "exec_calls Map.empty ?cs (js ''a'') = Some ?r"
    by (simp add: exec_calls_def isRateLimited_def cleanup_def js_def)
  show ?thesis using count_invariant[of 2 ?cs "js ''a''" ?r 6, OF L calls r] r by simp
qed

text \<open>
  The limit need not be an integer. With the limit 1.5 the second check of a window finds
  the count 1 below the limit and raises it to 2, above the limit.
\<close>

theorem fractional_limit_exceeded:
  "(1::real) \<le> 3 / 2 \<and>
   exec_calls Map.empty
     [Check (js ''ip'') 0 (3 / 2) 1000, Check (js ''ip'') 1 (3 / 2) 1000] (js ''ip'') =
     Some \<lparr>count = 2, resetTime = 1000\<rparr> \<and>
   real_of_int (count \<lparr>count = 2, resetTime = 1000\<rparr>) > 3 / 2"
  by (simp add: exec_calls_def isRateLimited_def)

section \<open>Phone numbers: properties\<close>

lemma sanitizePhoneNumber_digits:
  "sanitizePhoneNumber phone =
     (if length (filter is_digit phone) = 10 then filter is_digit phone
      else if length (filter is_digit phone) = 12 \<and> take 2 (filter is_digit phone) = js ''91''
      then drop 2 (filter is_digit phone) else filter is_digit phone)"
  by (simp add: sanitizePhoneNumber_def remove_class_def Let_def)

lemma digits_prefixed: "filter is_digit (js ''+91 98765 43210'') = js ''919876543210''"
  by (simp add: js_def is_digit_def)

lemma digits_plain: "filter is_digit (js ''9876543210'') = js ''9876543210''"
  by (simp add: js_def is_digit_def)

lemma digits_eleven: "filter is_digit (js ''0 12345-67890'') = js ''01234567890''"
  by (simp add: js_def is_digit_def)

lemma digits_landline: "filter is_digit (js ''(040) 2345-6789'') = js ''04023456789''"
  by (simp add: js_def is_digit_def)

text \<open>
  Claim C5. \<open>"+91 98765 43210"\<close> is normalised to \<open>"9876543210"\<close>, \<open>"9876543210"\<close> is
  returned as it is, and an input with 11 digit characters is returned as those 11
  digits, whether or not they begin with the country code: nothing is cut off.
\<close>

theorem phone_normalisation:
  "sanitizePhoneNumber (js ''+91 98765 43210'') = js ''9876543210'' \<and>
   sanitizePhoneNumber (js ''9876543210'') = js ''9876543210'' \<and>
   (length (filter is_digit phone) = 11 \<longrightarrow>
      sanitizePhoneNumber phone = filter is_digit phone)"
proof (intro conjI impI)
  show "sanitizePhoneNumber (js ''+91 98765 43210'') = js ''9876543210''"
    unfolding sanitizePhoneNumber_digits digits_prefixed by (simp add: js_def)
  show "sanitizePhoneNumber (js ''9876543210'') = js ''9876543210''"
    unfolding sanitizePhoneNumber_digits digits_plain by (simp add: js_def)
  show "sanitizePhoneNumber phone = filter is_digit phone"
    if "length (filter is_digit phone) = 11"
    unfolding sanitizePhoneNumber_digits using that by simp
qed

theorem phone_normalisation_witness:
  "length (filter is_digit (js ''0 12345-67890'')) = 11 \<and>
   sanitizePhoneNumber (js ''0 12345-67890'') = js ''01234567890''"
proof -
  have len: "length (filter is_digit (js ''0 12345-67890'')) = 11"
    unfolding digits_eleven by (simp add: js_def)
  show ?thesis
    using phone_normalisation[of "js ''0 12345-67890''"] len
    by (simp only: digits_eleven simp_thms)
qed

text \<open>
  Claim C10. The result of \<open>sanitizePhoneNumber\<close> has digit characters only. It is the
  subsequence of the digit characters of the input, without its first two characters
  exactly when that subsequence has length 12 and starts with \<open>"91"\<close>.
\<close>

theorem phone_digits_only:
  "(\<forall>c\<in>set (sanitizePhoneNumber phone). is_digit c) \<and>
   sanitizePhoneNumber phone =
     (if length (filter is_digit phone) = 12 \<and> take 2 (filter is_digit phone) = js ''91''
      then drop 2 (filter is_digit phone) else filter is_digit phone)"
proof
  show shape: "sanitizePhoneNumber phone =
     (if length (filter is_digit phone) = 12 \<and> take 2 (filter is_digit phone) = js ''91''
      then drop 2 (filter is_digit phone) else filter is_digit phone)"
    unfolding sanitizePhoneNumber_digits by simp
  show "\<forall>c\<in>set (sanitizePhoneNumber phone). is_digit c"
  proof
    fix c assume c: "c \<in> set (sanitizePhoneNumber phone)"
    have "sanitizePhoneNumber phone = filter is_digit phone \<or>
        sanitizePhoneNumber phone = drop 2 (filter is_digit phone)"
      unfolding shape by simp
    then have "c \<in> set (filter is_digit phone) \<or> c \<in> set (drop 2 (filter is_digit phone))"
      using c by metis
    then have "c \<in> set (filter is_digit phone)"
      using set_drop_subset[of 2 "filter is_digit phone"] by blast
    then show "is_digit c" by simp
  qed
qed

theorem phone_digits_only_witness:
  "list_all is_digit (sanitizePhoneNumber (js ''+91 98765 43210'')) \<and>
   sanitizePhoneNumber (js ''+91 98765 43210'') = js ''9876543210'' \<and>
   sanitizePhoneNumber (js ''(040) 2345-6789'') = js ''04023456789''"
proof -
  have a: "list_all is_digit (sanitizePhoneNumber (js ''+91 98765 43210''))"
    using conjunct1[OF phone_digits_only[of "js ''+91 98765 43210''"]]
    unfolding list_all_iff .
  have b: "sanitizePhoneNumber (js ''+91 98765 43210'') = js ''9876543210''"
    using conjunct2[OF phone_digits_only[of "js ''+91 98765 43210''"]]
    unfolding digits_prefixed by (simp add: js_def)
  have c: "sanitizePhoneNumber (js ''(040) 2345-6789'') = js ''04023456789''"
    using conjunct2[OF phone_digits_only[of "js ''(040) 2345-6789''"]]
    unfolding digits_landline by (simp add: js_def)
  show ?thesis using a b c by (simp only: simp_thms)
qed

section \<open>Authorisation: properties\<close>


text \<open>
  Claim C2, as the code has it. For an admin whose role is \<open>super_admin\<close> the permission
  check passes for every permission name, whatever the permission map holds. For any
  other admin and a name that is not a property of \<open>Object.prototype\<close>, it passes exactly
  when the map has the required permission with value true; for every name, it passes
  exactly when the map has the name with value true, or lacks the name and the name is a
  property of \<open>Object.prototype\<close>. When it does not pass it fails with the
  \<open>AuthorizationError\<close> whose message is \<open>"Permission denied. Required permission: "\<close>
  followed by the required permission, with status 403 and code \<open>AUTH_FORBIDDEN\<close>.
\<close>

theorem permission_policy:
  "(adminRole a = js ''super_admin'' \<longrightarrow>
      (requirePermission p (Some a) :: 'n failure + unit) = Inr ()) \<and>
   (adminRole a \<noteq> js ''super_admin'' \<longrightarrow>
      (p \<notin> set Object_prototype \<longrightarrow>
         ((requirePermission p (Some a) :: 'n failure + unit) = Inr () \<longleftrightarrow>
            permissions a p = Some True)) \<and>
      ((requirePermission p (Some a) :: 'n failure + unit) = Inr () \<longleftrightarrow>
         permissions a p = Some True \<or>
         (permissions a p = None \<and> p \<in> set Object_prototype)) \<and>
      ((requirePermission p (Some a) :: 'n failure + unit) \<noteq> Inr () \<longrightarrow>
         (requirePermission p (Some a) :: 'n failure + unit) =
           Inl (AppErr \<lparr>message = js ''Permission denied. Required permission: '' @ p,
                        statusCode = 403, code = AUTH_FORBIDDEN, isOperational = True,
                        details = None\<rparr>)))"
proof -
  have truthy: "truthy_permission (permissions a) p \<longleftrightarrow>
      permissions a p = Some True \<or> (permissions a p = None \<and> p \<in> set Object_prototype)"
    by (cases "permissions a p") (simp_all add: truthy_permission_def)
  have denial: "(AuthorizationError (Some m) :: 'n AppError) =
      \<lparr>message = m, statusCode = 403, code = AUTH_FORBIDDEN, isOperational = True,
       details = None\<rparr>" for m
    by (simp add: error_classes HTTP_STATUS or_default_def)
  show ?thesis
    unfolding requirePermission_def option.case denial truthy by auto
qed

theorem permission_policy_witness:
  "(requirePermission (js ''canDeleteEverything'')
     (Some \<lparr>admin_id = js ''1'', email = js ''root@example.org'', adminRole = js ''super_admin'',
            permissions = Map.empty\<rparr>) :: int failure + unit) = Inr () \<and>
   (requirePermission (js ''manageUsers'')
     (Some \<lparr>admin_id = js ''2'', email = js ''mod@example.org'', adminRole = js ''moderator'',
            permissions = [js ''manageUsers'' \<mapsto> True]\<rparr>) :: int failure + unit) = Inr () \<and>
   (requirePermission (js ''manageUsers'')
     (Some \<lparr>admin_id = js ''3'', email = js ''new@example.org'', adminRole = js ''admin'',
            permissions = [js ''manageUsers'' \<mapsto> False]\<rparr>) :: int failure + unit) =
     Inl (AppErr \<lparr>message = js ''Permission denied. Required permission: manageUsers'',
                  statusCode = 403, code = AUTH_FORBIDDEN, isOperational = True,
                  details = None\<rparr>) \<and>
   (requirePermission (js ''viewReports'')
     (Some \<lparr>admin_id = js ''3'', email = js ''new@example.org'', adminRole = js ''admin'',
            permissions = [js ''manageUsers'' \<mapsto> False]\<rparr>) :: int failure + unit) =
     Inl (AppErr \<lparr>message = js ''Permission denied. Required permission: viewReports'',
                  statusCode = 403, code = AUTH_FORBIDDEN, isOperational = True,
                  details = None\<rparr>)"
proof -
  let ?root = "\<lparr>admin_id = js ''1'', email = js ''root@example.org'',
      adminRole = js ''super_admin'', permissions = Map.empty\<rparr>"
  let ?mod = "\<lparr>admin_id = js ''2'', email = js ''mod@example.org'',
      adminRole = js ''moderator'', permissions = [js ''manageUsers'' \<mapsto> True]\<rparr>"
  let ?new = "\<lparr>admin_id = js ''3'', email = js ''new@example.org'',
      adminRole = js ''admin'', permissions = [js ''manageUsers'' \<mapsto> False]\<rparr>"
  have roles: "adminRole ?mod \<noteq> js ''super_admin''" "adminRole ?new \<noteq> js ''super_admin''"
    by (simp_all add: js_def)
  have names: "js ''manageUsers'' \<notin> set Object_prototype"
    "js ''viewReports'' \<notin> set Object_prototype"
    by (simp_all add: Object_prototype_def js_def)
  have other: "js ''viewReports'' \<noteq> js ''manageUsers''" by (simp add: js_def)
  have msg: "js ''Permission denied. Required permission: '' @ js ''manageUsers'' =
      js ''Permission denied. Required permission: manageUsers''"
    "js ''Permission denied. Required permission: '' @ js ''viewReports'' =
      js ''Permission denied. Required permission: viewReports''"
    by (simp_all add: js_def)
  have a: "(requirePermission (js ''canDeleteEverything'') (Some ?root) :: int failure + unit) =
      Inr ()"
    using permission_policy[of ?root "js ''canDeleteEverything''", where ?'n = int] by simp
  have b: "(requirePermission (js ''manageUsers'') (Some ?mod) :: int failure + unit) = Inr ()"
    using permission_policy[of ?mod "js ''manageUsers''", where ?'n = int] roles(1) names(1)
    by simp
  have c: "(requirePermission (js ''manageUsers'') (Some ?new) :: int failure + unit) =
     Inl (AppErr \<lparr>message = js ''Permission denied. Required permission: manageUsers'',
                  statusCode = 403, code = AUTH_FORBIDDEN, isOperational = True,
                  details = None\<rparr>)"
    using permission_policy[of ?new "js ''manageUsers''", where ?'n = int] roles(2) names(1)
    by (simp add: msg)
  have d: "(requirePermission (js ''viewReports'') (Some ?new) :: int failure + unit) =
     Inl (AppErr \<lparr>message = js ''Permission denied. Required permission: viewReports'',
                  statusCode = 403, code = AUTH_FORBIDDEN, isOperational = True,
                  details = None\<rparr>)"
    using permission_policy[of ?new "js ''viewReports''", where ?'n = int] roles(2) names(2) other
    by (simp add: msg)
  show ?thesis using a b c d by (simp only: simp_thms)
qed

text \<open>
  The claim as stated has a non-super admin allowed only when the permission map holds
  the name with value true. For a name that every object inherits the read
  \<open>permissions[permission]\<close> is truthy without the map holding it: a moderator whose map
  holds \<open>manageUsers\<close> alone passes the check for \<open>constructor\<close>.
\<close>

theorem inherited_name_allowed:
  "adminRole \<lparr>admin_id = js ''2'', email = js ''mod@example.org'', adminRole = js ''moderator'',
              permissions = [js ''manageUsers'' \<mapsto> True]\<rparr> \<noteq> js ''super_admin'' \<and>
   permissions \<lparr>admin_id = js ''2'', email = js ''mod@example.org'', adminRole = js ''moderator'',
                permissions = [js ''manageUsers'' \<mapsto> True]\<rparr> (js ''constructor'') = None \<and>
   (requirePermission (js ''constructor'')
     (Some \<lparr>admin_id = js ''2'', email = js ''mod@example.org'', adminRole = js ''moderator'',
            permissions = [js ''manageUsers'' \<mapsto> True]\<rparr>) :: int failure + unit) = Inr ()"
  by (simp add: requirePermission_def truthy_permission_def Object_prototype_def js_def)




section \<open>Error classes and the error handler: properties\<close>

lemma errorResponse_AppErr:
  "errorResponse (AppErr e) rid now =
     \<lparr>status = statusCode e,
      json = \<lparr>success = False,
               resp_message = message e,
               resp_data = None,
               resp_error = Some \<lparr>error_code = code e,
                                   error_details =
                                     (case details e of
                                        None \<Rightarrow> None
                                      | Some d \<Rightarrow> if is_object_value d then Some d else None)\<rparr>,
               meta = \<lparr>timestamp = now,
                        requestId =
                          (case rid of
                             None \<Rightarrow> None
                           | Some r \<Rightarrow> if r \<noteq> [] then Some r else None)\<rparr>\<rparr>\<rparr>"
  by (simp add: errorResponse_def)

lemma errorHandler_AppErr: "errorHandler env (AppErr e) rid now = errorResponse (AppErr e) rid now"
  by (simp add: errorHandler_def js_def)

text \<open>
  Claim C6, as the code has it. Each error class fixes the status together with the
  code when the error is constructed: \<open>ValidationError\<close> 400, \<open>RateLimitError\<close> 429,
  \<open>AuthorizationError\<close> (both the permission denial and the deactivated-account denial)
  403, \<open>NotFoundError\<close> 404, \<open>ConflictError\<close> 409, \<open>DatabaseError\<close> 500, and an \<open>AppError\<close>
  constructed with the default arguments 500 with \<open>INTERNAL_ERROR\<close>. The error handler
  sends an \<open>AppError\<close> with the status it was constructed with.
\<close>

theorem error_class_status:
  "statusCode (ValidationError m d :: 'n AppError) = 400 \<and>
   code (ValidationError m d :: 'n AppError) = VALIDATION_ERROR \<and>
   statusCode (RateLimitError m :: 'n AppError) = 429 \<and>
   code (RateLimitError m :: 'n AppError) = RATE_LIMIT_EXCEEDED \<and>
   statusCode (AuthorizationError m :: 'n AppError) = 403 \<and>
   code (AuthorizationError m :: 'n AppError) = AUTH_FORBIDDEN \<and>
   statusCode (NotFoundError m :: 'n AppError) = 404 \<and>
   code (NotFoundError m :: 'n AppError) = RESOURCE_NOT_FOUND \<and>
   statusCode (ConflictError m :: 'n AppError) = 409 \<and>
   code (ConflictError m :: 'n AppError) = RESOURCE_ALREADY_EXISTS \<and>
   statusCode (DatabaseError m d :: 'n AppError) = 500 \<and>
   code (DatabaseError m d :: 'n AppError) = DATABASE_ERROR \<and>
   statusCode (new_AppError msg None None None None :: 'n AppError) = 500 \<and>
   code (new_AppError msg None None None None :: 'n AppError) = INTERNAL_ERROR \<and>
   status (errorHandler env (AppErr (e :: 'n AppError)) rid now) = statusCode e \<and>
   error_code (the (resp_error (json (errorHandler env (AppErr e) rid now)))) = code e"
  by (simp add: error_classes HTTP_STATUS errorHandler_AppErr errorResponse_AppErr)

text \<open>
  The status is not a function of the kind: the base constructor takes the status and
  the code as separate arguments. \<open>notFoundHandler\<close> constructs an error of the kind
  \<open>INTERNAL_ERROR\<close> with status 404, and the handler sends it with that status.
\<close>

theorem not_found_handler_status:
  "code (notFoundHandler (js ''GET'') (js ''/nowhere'') :: int AppError) = INTERNAL_ERROR \<and>
   statusCode (notFoundHandler (js ''GET'') (js ''/nowhere'') :: int AppError) = 404 \<and>
   status (errorHandler production
             (AppErr (notFoundHandler (js ''GET'') (js ''/nowhere'') :: int AppError))
             None (js ''2026-01-01T00:00:00.000Z'')) = 404"
  by (simp add: notFoundHandler_def error_classes errorHandler_AppErr errorResponse_AppErr)

lemma errorResponse_error_response:
  "success (json (errorResponse error rid now)) = False"
  "resp_error (json (errorResponse error rid now)) \<noteq> None"
  by (cases error; simp add: errorResponse_def)+

lemma errorHandler_is_errorResponse:
  "\<exists>error. errorHandler env err rid now = errorResponse error rid now"
proof (cases err)
  case (ZodError issues msg)
  then show ?thesis by (simp add: errorHandler_def) blast
next
  case (AppErr e)
  then show ?thesis using errorHandler_AppErr[of env e rid now] by blast
next
  case (OtherError x)
  have "errorHandler env err rid now =
          errorResponse (AppErr (ValidationError (Some (err_message x)) None)) rid now \<or>
        errorHandler env err rid now =
          errorResponse (AppErr (ValidationError (Some (js ''Invalid ID format'')) None)) rid now \<or>
        errorHandler env err rid now =
          errorResponse (AppErr (ValidationError (Some (js ''Resource already exists'')) None))
            rid now \<or>
        errorHandler env err rid now =
          errorResponse
            (AppErr (new_AppError (js ''An unexpected error occurred'') None None None None))
            rid now \<or>
        errorHandler env err rid now = errorResponse err rid now"
    unfolding OtherError by (simp add: errorHandler_def)
  then show ?thesis by blast
qed

lemma errorHandler_error_response:
  "success (json (errorHandler env err rid now)) = False"
  "resp_error (json (errorHandler env err rid now)) \<noteq> None"
proof -
  obtain error where "errorHandler env err rid now = errorResponse error rid now"
    using errorHandler_is_errorResponse by blast
  then show "success (json (errorHandler env err rid now)) = False"
    and "resp_error (json (errorHandler env err rid now)) \<noteq> None"
    by (simp_all only: errorResponse_error_response simp_thms)
qed

text \<open>
  Claim C8, as the code has it. The handler sends an error response for every failure. An
  \<open>AppError\<close> passes through with its own status, code and message; its details are
  sent when they are an array or an object and left out otherwise. An error that is
  neither a \<open>ZodError\<close> nor an \<open>AppError\<close>, and that the handler does not recognise by
  its name (\<open>ValidationError\<close>, \<open>CastError\<close>, or \<open>MongoServerError\<close> with code 11000), is
  sent as status 500 with the code \<open>INTERNAL_ERROR\<close>, the message
  \<open>"An unexpected error occurred"\<close> and no details, in production and in every other
  environment: the response does not depend on the message, the stack or the code of
  the error.
\<close>

theorem error_translation:
  "errorHandler env (AppErr (e :: 'n AppError)) rid now =
     \<lparr>status = statusCode e,
      json = \<lparr>success = False,
               resp_message = message e,
               resp_data = None,
               resp_error = Some \<lparr>error_code = code e,
                                   error_details =
                                     (case details e of
                                        None \<Rightarrow> None
                                      | Some d \<Rightarrow> if is_object_value d then Some d else None)\<rparr>,
               meta = \<lparr>timestamp = now,
                        requestId =
                          (case rid of
                             None \<Rightarrow> None
                           | Some r \<Rightarrow> if r \<noteq> [] then Some r else None)\<rparr>\<rparr>\<rparr> \<and>
   (err_name x \<noteq> js ''ValidationError'' \<and> err_name x \<noteq> js ''CastError'' \<and>
    (err_name x = js ''MongoServerError'' \<longrightarrow> err_code x \<noteq> Some 11000) \<longrightarrow>
      (errorHandler env (OtherError x) rid now :: 'n HttpResponse) =
        \<lparr>status = 500,
         json = \<lparr>success = False,
                  resp_message = js ''An unexpected error occurred'',
                  resp_data = None,
                  resp_error = Some \<lparr>error_code = INTERNAL_ERROR, error_details = None\<rparr>,
                  meta = \<lparr>timestamp = now,
                           requestId =
                             (case rid of
                                None \<Rightarrow> None
                              | Some r \<Rightarrow> if r \<noteq> [] then Some r else None)\<rparr>\<rparr>\<rparr>) \<and>
   success (json (errorHandler env (err :: 'n failure) rid now)) = False \<and>
   resp_error (json (errorHandler env err rid now)) \<noteq> None"
proof (intro conjI impI)
  show "errorHandler env (AppErr e) rid now =
     \<lparr>status = statusCode e,
      json = \<lparr>success = False,
               resp_message = message e,
               resp_data = None,
               resp_error = Some \<lparr>error_code = code e,
                                   error_details =
                                     (case details e of
                                        None \<Rightarrow> None
                                      | Some d \<Rightarrow> if is_object_value d then Some d else None)\<rparr>,
               meta = \<lparr>timestamp = now,
                        requestId =
                          (case rid of
                             None \<Rightarrow> None
                           | Some r \<Rightarrow> if r \<noteq> [] then Some r else None)\<rparr>\<rparr>\<rparr>"
    by (simp only: errorHandler_AppErr errorResponse_AppErr)
next
  assume x: "err_name x \<noteq> js ''ValidationError'' \<and> err_name x \<noteq> js ''CastError'' \<and>
    (err_name x = js ''MongoServerError'' \<longrightarrow> err_code x \<noteq> Some 11000)"
  have "(errorHandler env (OtherError x) rid now :: 'n HttpResponse) =
      (if env = production
       then errorResponse
              (AppErr (new_AppError (js ''An unexpected error occurred'') None None None None))
              rid now
       else errorResponse (OtherError x) rid now)"
  proof -
    have n1: "err_name x \<noteq> js ''ValidationError''" and n2: "err_name x \<noteq> js ''CastError''"
      and n3: "\<not> (err_name x = js ''MongoServerError'' \<and> err_code x = Some 11000)"
      using x by blast+
    show ?thesis by (simp add: errorHandler_def n1 n2 n3)
  qed
  then show "(errorHandler env (OtherError x) rid now :: 'n HttpResponse) =
        \<lparr>status = 500,
         json = \<lparr>success = False,
                  resp_message = js ''An unexpected error occurred'',
                  resp_data = None,
                  resp_error = Some \<lparr>error_code = INTERNAL_ERROR, error_details = None\<rparr>,
                  meta = \<lparr>timestamp = now,
                           requestId =
                             (case rid of
                                None \<Rightarrow> None
                              | Some r \<Rightarrow> if r \<noteq> [] then Some r else None)\<rparr>\<rparr>\<rparr>"
    by (simp add: errorResponse_def error_classes HTTP_STATUS)
next
  show "success (json (errorHandler env err rid now)) = False"
    by (rule errorHandler_error_response)
next
  show "resp_error (json (errorHandler env err rid now)) \<noteq> None"
    by (rule errorHandler_error_response)
qed

theorem error_translation_witness:
  "(errorHandler production
      (OtherError \<lparr>err_name = js ''TypeError'',
                   err_message = js ''Cannot read properties of undefined'',
                   err_code = None,
                   err_stack = Some (js ''TypeError: at handler (/srv/app/dist/user.js:41:17)'')\<rparr>)
      (Some (js ''req-7'')) (js ''2026-01-01T00:00:00.000Z'') :: int HttpResponse) =
     \<lparr>status = 500,
      json = \<lparr>success = False,
               resp_message = js ''An unexpected error occurred'',
               resp_data = None,
               resp_error = Some \<lparr>error_code = INTERNAL_ERROR, error_details = None\<rparr>,
               meta = \<lparr>timestamp = js ''2026-01-01T00:00:00.000Z'',
                        requestId = Some (js ''req-7'')\<rparr>\<rparr>\<rparr>"
proof -
  let ?x = "\<lparr>err_name = js ''TypeError'',
      err_message = js ''Cannot read properties of undefined'',
      err_code = None,
      err_stack = Some (js ''TypeError: at handler (/srv/app/dist/user.js:41:17)'')\<rparr>"
  have x: "err_name ?x \<noteq> js ''ValidationError'' \<and> err_name ?x \<noteq> js ''CastError'' \<and>
    (err_name ?x = js ''MongoServerError'' \<longrightarrow> err_code ?x \<noteq> Some 11000)"
    by (simp add: js_def)
  have rid: "js ''req-7'' \<noteq> []" by (simp add: js_def)
  show ?thesis
    using conjunct1[OF conjunct2[OF error_translation[of production _ "Some (js ''req-7'')"
        "js ''2026-01-01T00:00:00.000Z''" ?x, where ?'n = int]], THEN mp, OF x] rid
    by simp
qed

text \<open>
  The claim as stated has an error of a known kind pass through with its details. Details
  that are not an array or an object are left out of the response: here a string.
\<close>

theorem string_details_left_out:
  "details (DatabaseError None (Some (JStr (js ''ECONNREFUSED 10.0.0.5:27017''))) :: int AppError) =
     Some (JStr (js ''ECONNREFUSED 10.0.0.5:27017'')) \<and>
   resp_error (json (errorHandler production
       (AppErr (DatabaseError None (Some (JStr (js ''ECONNREFUSED 10.0.0.5:27017''))) :: int AppError))
       None (js ''2026-01-01T00:00:00.000Z''))) =
     Some \<lparr>error_code = DATABASE_ERROR, error_details = None\<rparr>"
  by (simp add: errorHandler_AppErr errorResponse_AppErr error_classes)
section \<open>Sanitisation: properties\<close>





























end
